theory Spec2Isabelle
  imports Complex_Main "HOL-Library.Log_Nat" "HOL-Library.AList" "HOL-Library.Product_Lexorder"
    "HOL-Library.Multiset"
begin

section \<open>Numbers of the program\<close>

text \<open>
  The scheduler computes with Python numbers. A Python \<open>float\<close> is an IEEE-754 binary64
  value; every finite one is a rational number, so a number of the program is a \<^typ>\<open>rat\<close>
  and each floating-point operation is the exact operation followed by \<open>fl\<close>, rounding to
  the nearest binary64 value, ties to even (53 bits of significand, gradual underflow at
  \<open>2 powi -1074\<close>). Overflow to infinity and NaN are outside the model, as are Python
  integers beyond \<open>2 ^ 53\<close> (an \<open>int\<close> operand is converted to \<open>float\<close> first, which is
  exact below that bound).
\<close>

definition ilog2 :: "rat \<Rightarrow> int" where
  \<comment> \<open>for \<open>0 < x\<close>: the exponent \<open>e\<close> with \<open>2 powi e \<le> x < 2 powi (e + 1)\<close>\<close>
  "ilog2 x = (if 1 \<le> x then bitlen \<lfloor>x\<rfloor> - 1 else - bitlen (\<lceil>1 / x\<rceil> - 1))"

definition round_half_even :: "rat \<Rightarrow> int" where
  "round_half_even x =
     (let f = \<lfloor>x\<rfloor>; r = x - of_int f
      in if r < 1 / 2 then f else if 1 / 2 < r then f + 1 else if even f then f else f + 1)"

definition fl :: "rat \<Rightarrow> rat" where
  "fl x = (if x = 0 then 0
           else let e = max (ilog2 \<bar>x\<bar> - 52) (- 1074)
                in of_int (round_half_even (x / 2 powi e)) * 2 powi e)"

definition round_nd :: "rat \<Rightarrow> int \<Rightarrow> rat" where
  \<comment> \<open>Python's \<open>round(x, n)\<close>: the decimal rounding of \<open>x\<close> to \<open>n\<close> places, ties to even,
      read back as a float\<close>
  "round_nd x n = fl (of_int (round_half_even (x * 10 powi n)) / 10 powi n)"

function digits10 :: "int \<Rightarrow> int" where
  \<comment> \<open>the number of decimal digits of a positive integer\<close>
  "digits10 a = (if a \<le> 0 then 0 else digits10 (a div 10) + 1)"
  by pat_completeness auto
termination
  by (relation "measure nat") auto

declare digits10.simps [simp del]

definition ilog10 :: "rat \<Rightarrow> int" where
  \<comment> \<open>for \<open>0 < x\<close>: the exponent \<open>e\<close> with \<open>10 powi e \<le> x < 10 powi (e + 1)\<close>\<close>
  "ilog10 x = (if 1 \<le> x then digits10 \<lfloor>x\<rfloor> - 1 else - digits10 (\<lceil>1 / x\<rceil> - 1))"

definition round_log10 :: "rat \<Rightarrow> int" where
  \<comment> \<open>\<open>round(math.log(x, 10))\<close> for \<open>0 < x\<close>: the integer \<open>n\<close> with
      \<open>10 powi (2 * n - 1) < x * x < 10 powi (2 * n + 1)\<close>. The logarithm of the C library
      is taken as exact; a rational \<open>x\<close> is never at a tie.\<close>
  "round_log10 x = (let e = ilog10 x in if x * x < 10 powi (2 * e + 1) then e else e + 1)"

section \<open>Exceptions\<close>

datatype py_error = IndexError | KeyError | TypeError | ValueError | ZeroDivisionError

definition bindE :: "py_error + 'a \<Rightarrow> ('a \<Rightarrow> py_error + 'b) \<Rightarrow> py_error + 'b" where
  "bindE r f = (case r of Inl e \<Rightarrow> Inl e | Inr x \<Rightarrow> f x)"

lemma bindE_Inl [simp]: "bindE (Inl e) f = Inl e"
  by (simp add: bindE_def)

lemma bindE_Inr [simp]: "bindE (Inr x) f = f x"
  by (simp add: bindE_def)

lemma bindE_eq_Inr: "bindE r f = Inr y \<longleftrightarrow> (\<exists>x. r = Inr x \<and> f x = Inr y)"
  by (cases r) simp_all

section \<open>Tasks\<close>

text \<open>
  Modelled from the spec: the class \<open>Task\<close> (its file is not among the sources). Section 3
  of the specification gives its fields; the scheduler uses the accessors
  \<open>getId\<close>, \<open>getDeadline\<close>, \<open>getWeight\<close>, \<open>getWorkloadQuota(i)\<close>, \<open>setWorkloadQuota(wq)\<close>,
  \<open>getBackupWorkloadQuota(i)\<close>, \<open>setBackupWorkloadQuota(bwq)\<close>, \<open>setStartTime\<close>,
  \<open>getStartTime\<close>, \<open>setBackupStartTime\<close>, \<open>getBackupStartTime\<close>, \<open>getEncounteredFault\<close>,
  \<open>setEncounteredFault(idx, t)\<close> and \<open>resetEncounteredFault\<close>. The quotas are lists with
  one entry appended per window (\<open>getTaskWQ\<close> reads \<open>len(task.workload_quota) - 1\<close>), and
  reading an index that is not there raises \<open>IndexError\<close>.
\<close>

record task =
  task_id :: int
  deadline :: rat
  weight :: rat
  workload_quota :: "rat list"
  backup_workload_quota :: "rat list"
  start_time :: rat
  backup_start_time :: rat
  encountered_fault :: bool
  relative_fault_time :: "(nat \<times> rat) option"
  completed :: bool

definition Task :: "int \<Rightarrow> rat \<Rightarrow> rat \<Rightarrow> task" where
  "Task i d w = \<lparr>task_id = i, deadline = d, weight = w, workload_quota = [],
     backup_workload_quota = [], start_time = 0, backup_start_time = 0,
     encountered_fault = False, relative_fault_time = None, completed = False\<rparr>"

definition getWorkloadQuota :: "task \<Rightarrow> nat \<Rightarrow> py_error + rat" where
  "getWorkloadQuota t i =
     (if i < length (workload_quota t) then Inr (workload_quota t ! i) else Inl IndexError)"

definition getBackupWorkloadQuota :: "task \<Rightarrow> nat \<Rightarrow> py_error + rat" where
  "getBackupWorkloadQuota t i =
     (if i < length (backup_workload_quota t) then Inr (backup_workload_quota t ! i)
      else Inl IndexError)"

definition setWorkloadQuota :: "rat \<Rightarrow> task \<Rightarrow> task" where
  "setWorkloadQuota wq t = t\<lparr>workload_quota := workload_quota t @ [wq]\<rparr>"

definition setBackupWorkloadQuota :: "rat \<Rightarrow> task \<Rightarrow> task" where
  "setBackupWorkloadQuota bwq t = t\<lparr>backup_workload_quota := backup_workload_quota t @ [bwq]\<rparr>"

section \<open>The scheduler object\<close>

text \<open>
  The scheduler keeps references to task objects: the deep copies made for a window are
  shared by that window's primary map and backup list. \<open>objs\<close> is the store of those
  objects, a reference is an index into it. \<open>pri_schedule\<close> is a dictionary of
  dictionaries; the inner one is kept in insertion order, as Python does.
\<close>

type_synonym ref = nat
type_synonym slot = "rat \<times> nat"

record scheduler =
  k :: int
  frame :: rat
  time_step :: rat
  precision_dp :: int
  m_pri :: int
  lp_hp_ratio :: rat
  pri_schedule :: "nat \<Rightarrow> (slot \<times> ref) list option"
  deadlines :: "rat list option"
  backup_start :: "rat list"
  backup_list :: "ref list list"
  log_debug :: bool
  objs :: "task list"

definition init :: "int \<Rightarrow> rat \<Rightarrow> rat \<Rightarrow> int \<Rightarrow> rat \<Rightarrow> bool \<Rightarrow> py_error + scheduler" where
  \<comment> \<open>\<open>__init__\<close>; \<open>math.log\<close> raises \<open>ValueError\<close> outside its domain, nothing else is
      checked\<close>
  "init kk fr ts m r dbg =
     (if ts \<le> 0 then Inl ValueError
      else Inr \<lparr>k = kk, frame = fr, time_step = ts, precision_dp = - round_log10 ts,
                m_pri = m, lp_hp_ratio = r, pri_schedule = (\<lambda>_. None), deadlines = None,
                backup_start = [], backup_list = [], log_debug = dbg, objs = []\<rparr>)"

definition roundUpTimeStep :: "scheduler \<Rightarrow> rat \<Rightarrow> py_error + rat" where
  "roundUpTimeStep s v =
     (if time_step s = 0 then Inl ZeroDivisionError
      else let out = round_nd (fl (fl (of_int \<lceil>fl (v / time_step s)\<rceil>) * time_step s))
                       (precision_dp s)
           in Inr (if out < time_step s then time_step s else out))"

fun reserve_loop :: "task list \<Rightarrow> nat \<Rightarrow> ref list \<Rightarrow> rat \<Rightarrow> py_error + rat" where
  \<comment> \<open>the loop of \<open>update_BB_overloading\<close> over the first \<open>l\<close> entries of the backup list\<close>
  "reserve_loop os idx [] reserve_cap = Inr reserve_cap"
| "reserve_loop os idx (b # bs) reserve_cap =
     bindE (getBackupWorkloadQuota (os ! b) idx)
       (\<lambda>q. reserve_loop os idx bs (fl (reserve_cap + q)))"

definition update_BB_overloading :: "scheduler \<Rightarrow> nat \<Rightarrow> rat \<Rightarrow> py_error + scheduler" where
  "update_BB_overloading s idx sim_time =
     (if length (backup_list s) \<le> idx then Inl IndexError
      else let bl = backup_list s ! idx;
               l = nat (min (k s) (int (length bl)))
           in bindE (reserve_loop (objs s) idx (take l bl) 0) (\<lambda>reserve_cap.
                case deadlines s of
                  None \<Rightarrow> Inl TypeError
                | Some ds \<Rightarrow>
                    if length ds \<le> idx then Inl IndexError
                    else let new_backup_start = fl (ds ! idx - reserve_cap)
                         in if length (backup_start s) \<le> idx
                            then Inr (s\<lparr>backup_start := backup_start s @ [new_backup_start]\<rparr>)
                            else Inr (s\<lparr>backup_start :=
                                   (backup_start s)[idx := max sim_time new_backup_start]\<rparr>)))"

definition remove_from_backup_list :: "scheduler \<Rightarrow> nat \<Rightarrow> int \<Rightarrow> rat \<Rightarrow> py_error + scheduler" where
  "remove_from_backup_list s idx taskId sim_time =
     (if length (backup_list s) \<le> idx then Inl IndexError
      else update_BB_overloading
             (s\<lparr>backup_list := (backup_list s)
                  [idx := filter (\<lambda>b. task_id (objs s ! b) \<noteq> taskId) (backup_list s ! idx)]\<rparr>)
             idx sim_time)"

section \<open>Building the schedule\<close>

definition getTaskDeadline :: "task \<Rightarrow> rat" where
  "getTaskDeadline t = deadline t"

definition getTaskWQ :: "task \<Rightarrow> py_error + rat" where
  \<comment> \<open>\<open>task.getWorkloadQuota(len(task.workload_quota) - 1)\<close>: index \<open>-1\<close> of an empty list
      raises as well\<close>
  "getTaskWQ t = (if workload_quota t = [] then Inl IndexError else Inr (last (workload_quota t)))"

definition wq_key :: "task \<Rightarrow> rat" where
  "wq_key t = (case getTaskWQ t of Inr q \<Rightarrow> q | Inl _ \<Rightarrow> 0)"

fun dedup :: "rat list \<Rightarrow> rat list \<Rightarrow> rat list" where
  \<comment> \<open>the comprehension that appends every deadline not yet in \<open>self.deadlines\<close>\<close>
  "dedup acc [] = acc"
| "dedup acc (d # ds) = dedup (if d \<in> set acc then acc else acc @ [d]) ds"

fun quota_loop :: "scheduler \<Rightarrow> rat \<Rightarrow> task list \<Rightarrow> rat \<Rightarrow> py_error + (task list \<times> rat)" where
  \<comment> \<open>step ii: every task of the list gets the window's two quotas appended; the second
      component is \<open>total_wq\<close>\<close>
  "quota_loop s time_window [] total_wq = Inr ([], total_wq)"
| "quota_loop s time_window (t # ts) total_wq =
     bindE (roundUpTimeStep s (fl (weight t * time_window))) (\<lambda>wq.
     bindE (roundUpTimeStep s (fl (fl (lp_hp_ratio s * weight t) * time_window))) (\<lambda>bwq.
     bindE (quota_loop s time_window ts (fl (total_wq + wq))) (\<lambda>(ts', tot).
       Inr (setBackupWorkloadQuota bwq (setWorkloadQuota wq t) # ts', tot))))"

fun remove_by_id :: "int \<Rightarrow> task list \<Rightarrow> task list" where
  \<comment> \<open>step v: \<open>tasksList.remove\<close> of the first task with the given id, then \<open>break\<close>\<close>
  "remove_by_id i [] = []"
| "remove_by_id i (t # ts) = (if task_id t = i then ts else t # remove_by_id i ts)"

definition next_core :: "int \<Rightarrow> nat \<Rightarrow> nat" where
  "next_core m c = (if m \<le> int (c + 1) then 0 else c + 1)"

function probe :: "int \<Rightarrow> rat list \<Rightarrow> rat \<Rightarrow> rat \<Rightarrow> nat \<Rightarrow> nat \<Rightarrow> py_error + nat option" where
  \<comment> \<open>the \<open>while\<close> loop of step iv: \<open>None\<close> is its \<open>return False\<close>, \<open>Some c\<close> the core on
      which the task fits\<close>
  "probe m pc lp limit c counter =
     (if length pc \<le> c then Inl IndexError
      else if limit < fl (pc ! c + lp)
      then (if m < int (counter + 1) then Inr None
            else probe m pc lp limit (next_core m c) (counter + 1))
      else Inr (Some c))"
  by pat_completeness auto
termination
  by (relation "measure (\<lambda>(m, pc, lp, limit, c, counter). nat (m + 1 - int counter))") auto

declare probe.simps [simp del]

record pack_state =
  currPriCore :: nat
  pri_cores :: "rat list"
  sched :: "(slot \<times> ref) list"
  tasks :: "task list"
  store :: "task list"

definition place :: "int \<Rightarrow> rat \<Rightarrow> ref \<Rightarrow> rat \<Rightarrow> nat \<Rightarrow> pack_state \<Rightarrow> pack_state" where
  \<comment> \<open>the task \<open>r\<close> is scheduled onto core \<open>c\<close>: the entry of the primary map, the start
      time, the cursor of the core, the next core, and step v, the removal from
      \<open>tasksList\<close> of a task that completes in this window (deadline \<open>d\<close>)\<close>
  "place m d r lp_executionTime c ps =
     (let start = pri_cores ps ! c;
          t = (store ps ! r)\<lparr>start_time := start\<rparr>
      in \<lparr>currPriCore = next_core m c,
          pri_cores = (pri_cores ps)[c := fl (start + lp_executionTime)],
          sched = AList.update (start, c) r (sched ps),
          tasks = (if d = deadline t then remove_by_id (task_id t) (tasks ps) else tasks ps),
          store = (store ps)[r := t]\<rparr>)"

fun pack_loop :: "int \<Rightarrow> rat \<Rightarrow> rat \<Rightarrow> nat \<Rightarrow> rat \<Rightarrow> ref list \<Rightarrow> pack_state
    \<Rightarrow> py_error + (bool \<times> pack_state)" where
  \<comment> \<open>\<open>for t in tasksA\<close>: \<open>m\<close> cores, the window \<open>i\<close> starts at \<open>start_window\<close>, is
      \<open>time_window\<close> long and ends at the deadline \<open>d\<close>\<close>
  "pack_loop m start_window time_window i d [] ps = Inr (True, ps)"
| "pack_loop m start_window time_window i d (r # rs) ps =
     bindE (getWorkloadQuota (store ps ! r) i) (\<lambda>lp_executionTime.
     bindE (probe m (pri_cores ps) lp_executionTime (fl (start_window + time_window))
              (currPriCore ps) 0) (\<lambda>found.
       case found of
         None \<Rightarrow> Inr (False, ps)
       | Some c \<Rightarrow>
           pack_loop m start_window time_window i d rs (place m d r lp_executionTime c ps)))"

definition sort_by_wq :: "task list \<Rightarrow> ref list \<Rightarrow> py_error + ref list" where
  \<comment> \<open>\<open>tasksA.sort(reverse=True, key=getTaskWQ)\<close>: stable, largest quota first\<close>
  "sort_by_wq os rs =
     (if \<exists>r \<in> set rs. workload_quota (os ! r) = [] then Inl IndexError
      else Inr (sort_key (\<lambda>r. - wq_key (os ! r)) rs))"

definition time_window_of :: "rat list \<Rightarrow> nat \<Rightarrow> rat" where
  "time_window_of ds i = (if i = 0 then ds ! i else fl (ds ! i - ds ! (i - 1)))"

definition start_window_of :: "rat list \<Rightarrow> nat \<Rightarrow> rat" where
  "start_window_of ds i = (if i = 0 then 0 else ds ! (i - 1))"

definition pack_window :: "scheduler \<Rightarrow> nat \<Rightarrow> rat list \<Rightarrow> task list
    \<Rightarrow> py_error + (bool \<times> scheduler \<times> task list)" where
  \<comment> \<open>steps iv to x of a window that passed the capacity test: the deep copy of the task
      list is appended to the store and sorted, packed onto the cores, and becomes the
      backup list; the cursors of the cores are read for the slack (an \<open>IndexError\<close>
      without cores)\<close>
  "pack_window s i ds tasksList =
     (let base = length (objs s);
          os = objs s @ tasksList
      in bindE (sort_by_wq os [base ..< base + length tasksList]) (\<lambda>tasksA.
         bindE (pack_loop (m_pri s) (start_window_of ds i) (time_window_of ds i) i (ds ! i)
                  tasksA
                  \<lparr>currPriCore = 0,
                   pri_cores = replicate (nat (m_pri s)) (start_window_of ds i),
                   sched = [], tasks = tasksList, store = os\<rparr>) (\<lambda>(ok, ps).
           if \<not> ok
           then Inr (False,
                  s\<lparr>pri_schedule := (pri_schedule s)(i \<mapsto> sched ps), objs := store ps\<rparr>,
                  tasks ps)
           else if pri_cores ps = [] then Inl IndexError
           else bindE (update_BB_overloading
                         (s\<lparr>pri_schedule := (pri_schedule s)(i \<mapsto> sort_key fst (sched ps)),
                            backup_list := backup_list s @ [tasksA],
                            objs := store ps\<rparr>) i 0)
                  (\<lambda>s'. Inr (True, s', tasks ps)))))"

definition window_step :: "scheduler \<Rightarrow> nat \<Rightarrow> task list
    \<Rightarrow> py_error + (bool \<times> scheduler \<times> task list)" where
  \<comment> \<open>the body of the loop over the windows; the first component is \<open>False\<close> when the
      body executes \<open>return False\<close>\<close>
  "window_step s i tasksList =
     (case deadlines s of
        None \<Rightarrow> Inl TypeError
      | Some ds \<Rightarrow>
          if length ds \<le> i then Inl IndexError
          else bindE (quota_loop s (time_window_of ds i) tasksList 0) (\<lambda>(ts, total_wq).
                 if total_wq \<le> fl (time_window_of ds i * of_int (m_pri s))
                 then pack_window s i ds ts
                 else Inr (False, s, ts)))"

fun windows_loop :: "nat list \<Rightarrow> scheduler \<Rightarrow> task list
    \<Rightarrow> py_error + (bool \<times> scheduler \<times> task list)" where
  "windows_loop [] s tasksList = Inr (True, s, tasksList)"
| "windows_loop (i # is) s tasksList =
     bindE (window_step s i tasksList) (\<lambda>(ok, s', tl).
       if ok then windows_loop is s' tl else Inr (False, s', tl))"

definition generate_schedule :: "scheduler \<Rightarrow> task list
    \<Rightarrow> py_error + (bool \<times> scheduler \<times> task list)" where
  \<comment> \<open>returns the value of the call, the scheduler after it and the caller's list after it\<close>
  "generate_schedule s tasksList =
     (let tl = sort_key getTaskDeadline tasksList;
          ds = dedup [] (map deadline tl)
      in windows_loop [0 ..< length ds] (s\<lparr>deadlines := Some ds\<rparr>) tl)"

section \<open>Evaluating the model on concrete inputs\<close>

text \<open>
  Rules that let the simplifier run the definitions on numerals: the bit length and the
  digit count by halving and by dividing by ten, the floor of a quotient of numerals, and
  congruence rules that evaluate the scrutinee of a \<open>case\<close>, a \<open>let\<close> or a \<open>bindE\<close>
  before its continuation.
\<close>

lemma bitlen_numeral: "bitlen (numeral n) = bitlen (numeral n div 2) + 1"
  by (subst compute_bitlen) simp

lemma bitlen_one: "bitlen 1 = 1"
  by (subst compute_bitlen) simp

lemma digits10_numeral: "digits10 (numeral n) = digits10 (numeral n div 10) + 1"
  by (subst digits10.simps) simp

lemma digits10_small: "digits10 0 = 0" "digits10 1 = 1"
  by (simp_all add: digits10.simps)

lemma floor_rat_numeral:
  "\<lfloor>(numeral a :: rat) / numeral b\<rfloor> = numeral a div numeral b"
  "\<lfloor>- ((numeral a :: rat) / numeral b)\<rfloor> = - numeral a div numeral b"
  "\<lfloor>(1 :: rat) / numeral b\<rfloor> = 1 div numeral b"
  "\<lfloor>- ((1 :: rat) / numeral b)\<rfloor> = - 1 div numeral b"
     apply (metis floor_divide_of_int_eq of_int_numeral)
    apply (metis floor_divide_of_int_eq of_int_numeral of_int_minus minus_divide_left)
   apply (metis floor_divide_of_int_eq of_int_numeral of_int_1)
  apply (metis floor_divide_of_int_eq of_int_numeral of_int_minus minus_divide_left of_int_1)
  done

lemma bindE_weak_cong: "r = r' \<Longrightarrow> bindE r f = bindE r' f"
  by simp

lemmas fl_eval = fl_def ilog2_def round_half_even_def Let_def bitlen_numeral bitlen_one
  floor_rat_numeral ceiling_def

lemmas log10_eval = round_log10_def ilog10_def digits10_numeral digits10_small

lemmas sched_eval = init_def generate_schedule_def window_step_def pack_window_def
  time_window_of_def start_window_of_def roundUpTimeStep_def
  round_nd_def update_BB_overloading_def sort_by_wq_def getTaskDeadline_def getTaskWQ_def
  wq_key_def Task_def getWorkloadQuota_def getBackupWorkloadQuota_def setWorkloadQuota_def
  setBackupWorkloadQuota_def next_core_def place_def probe.simps

lemmas model_eval = sched_eval log10_eval fl_eval upt_rec

lemmas eval_cong = bindE_weak_cong let_weak_cong sum.case_cong_weak prod.case_cong_weak
  option.case_cong_weak

section \<open>The constructor\<close>

text \<open>
  C9, as the specification states it: constructing the scheduler with a non-positive \<open>k\<close>,
  frame, time step or core count, or with a speed ratio outside \<open>(0, 1)\<close>, fails. The
  constructor checks none of them: with \<open>k = 0\<close>, frame \<open>0\<close>, no core and ratio \<open>2\<close> it
  returns a scheduler.
\<close>

theorem init_unchecked_counterexample:
  "\<not> isl (init 0 0 1 0 2 False)"
  by (simp add: init_def)

text \<open>
  C9, amended: construction fails exactly when the time step is not positive, and then with
  the \<open>ValueError\<close> of \<open>math.log\<close>; \<open>k\<close>, the frame, the core count and the speed ratio are
  not checked.
\<close>

theorem init_fails_iff:
  "init kk fr ts m r dbg = Inl e \<longleftrightarrow> e = ValueError \<and> ts \<le> 0"
  by (auto simp add: init_def)

theorem init_fails_iff_witness:
  "init 1 200 0 1 (4 / 5) False = Inl ValueError
   \<and> init 0 200 (1 / 100) 1 (4 / 5) False \<noteq> Inl ValueError"
  using init_fails_iff [of 1 200 0 1 "4 / 5" False ValueError]
    init_fails_iff [of 0 200 "1 / 100" 1 "4 / 5" False ValueError]
  by simp

section \<open>The backup reservation\<close>

text \<open>
  C1 at a failing input: two LP cores, \<open>k = 2\<close>, two tasks of weight \<open>0.9\<close> and deadline
  \<open>10\<close>. The schedule is built, the entry of window \<open>0\<close> is appended by
  \<open>update_BB_overloading(0, 0)\<close> as \<open>10 - (7.21 + 7.21)\<close>, which is negative: the appending
  branch does not take the maximum with \<open>sim_time\<close> that the overwriting branch takes.
\<close>

theorem append_path_not_clamped:
  "(case init 2 10 (fl (1 / 100)) 2 (fl (4 / 5)) False of Inl e \<Rightarrow> False
    | Inr s \<Rightarrow>
       (case generate_schedule s [Task 0 10 (fl (9 / 10)), Task 1 10 (fl (9 / 10))] of
          Inl e \<Rightarrow> False
        | Inr (ok, s', rest) \<Rightarrow>
            ok \<and> backup_start s' = [fl (10 - fl (fl (721 / 100) + fl (721 / 100)))]
             \<and> backup_start s' ! 0 < 0 \<and> backup_start s' ! 0 \<noteq> max 0 (backup_start s' ! 0)))"
  by (simp add: model_eval cong: eval_cong)

section \<open>Rounding up to the time step\<close>

text \<open>
  C4 at a failing input, the backup quota of the specification's own third scenario: time
  step \<open>0.01\<close>, ratio \<open>0.8\<close>, weight \<open>0.4\<close>, window length \<open>10\<close>. The float product
  \<open>0.8 * 0.4 * 10\<close> divided by \<open>0.01\<close> lies just above \<open>320\<close>, the ceiling is \<open>321\<close> and the
  quota \<open>3.21\<close>, one step above \<open>ceil(3.2 / 0.01) * 0.01 = 3.2\<close>.
\<close>

theorem roundUpTimeStep_float_slip:
  "(case init 1 20 (fl (1 / 100)) 1 (fl (4 / 5)) False of Inl e \<Rightarrow> False
    | Inr s \<Rightarrow>
        roundUpTimeStep s (fl (fl (fl (4 / 5) * fl (2 / 5)) * 10)) = Inr (fl (321 / 100))
        \<and> fl (16 / 5) < fl (321 / 100)
        \<and> 320 < fl (fl (fl (fl (4 / 5) * fl (2 / 5)) * 10) / fl (1 / 100))
        \<and> fl (fl (fl (fl (4 / 5) * fl (2 / 5)) * 10) / fl (1 / 100)) < 320 + 1 / 10 ^ 12)"
  by (simp add: model_eval cong: eval_cong)

text \<open>
  A second input on which the quota is not the next multiple of the time step: for the time
  step \<open>0.5\<close> the constructor sets \<open>precision_dp = 0\<close>, and the value \<open>1.2\<close> is rounded up
  to \<open>1.5\<close> and then, to zero decimal places, to \<open>2\<close>.
\<close>

lemma roundUpTimeStep_half_step:
  "(case init 1 20 (1 / 2) 1 (fl (4 / 5)) False of Inl e \<Rightarrow> False
    | Inr s \<Rightarrow> precision_dp s = 0 \<and> roundUpTimeStep s (fl (6 / 5)) = Inr 2)"
  by (simp add: model_eval cong: eval_cong)

section \<open>The third scenario of the specification\<close>

text \<open>
  C2, as the specification states it: for the tasks \<open>(0, 10, 0.4)\<close> and \<open>(1, 20, 0.3)\<close> with
  \<open>k = 1\<close>, time step \<open>0.01\<close>, one LP core and ratio \<open>0.8\<close>, the backup quota of task \<open>0\<close> is
  \<open>3.2\<close> and \<open>backup_start[0] = 4.4\<close>. The code reserves the first \<open>min(k, 2) = 1\<close> entry
  of the backup list only, so the start is above \<open>6\<close>; and the backup quota of task \<open>0\<close> is
  not \<open>3.2\<close>.
\<close>

theorem scenario3_counterexample:
  "(case init 1 20 (fl (1 / 100)) 1 (fl (4 / 5)) False of Inl e \<Rightarrow> False
    | Inr s \<Rightarrow>
       (case generate_schedule s [Task 0 10 (fl (2 / 5)), Task 1 20 (fl (3 / 10))] of
          Inl e \<Rightarrow> False
        | Inr (ok, s', rest) \<Rightarrow>
            backup_start s' ! 0 \<noteq> fl (22 / 5) \<and> backup_start s' ! 0 \<noteq> 22 / 5
            \<and> 6 < backup_start s' ! 0
            \<and> backup_workload_quota (objs s' ! 0) \<noteq> [fl (16 / 5)]))"
  by (simp add: model_eval cong: eval_cong)

text \<open>
  C2, amended: on that input \<open>generate_schedule\<close> succeeds; the primary quota of task \<open>0\<close>
  is \<open>4\<close>; task \<open>1\<close> has the quotas \<open>3\<close> and \<open>2.4\<close> in both windows; the backup list of
  window \<open>0\<close> is \<open>[T0, T1]\<close> and that of window \<open>1\<close> is \<open>[T1]\<close>; \<open>backup_start[0]\<close> is the
  deadline \<open>10\<close> less the backup quota of task \<open>0\<close> alone (\<open>k = 1\<close> reserves one entry), and
  \<open>backup_start[1] = 17.6\<close>. The objects \<open>0\<close> and \<open>1\<close> of the store are the copies of the
  two tasks made for window \<open>0\<close>, object \<open>2\<close> is the copy of task \<open>1\<close> made for window \<open>1\<close>.
\<close>

theorem scenario3_schedule:
  "(case init 1 20 (fl (1 / 100)) 1 (fl (4 / 5)) False of Inl e \<Rightarrow> False
    | Inr s \<Rightarrow>
       (case generate_schedule s [Task 0 10 (fl (2 / 5)), Task 1 20 (fl (3 / 10))] of
          Inl e \<Rightarrow> False
        | Inr (ok, s', rest) \<Rightarrow>
            ok \<and> map task_id (objs s') = [0, 1, 1]
            \<and> map workload_quota (objs s') = [[4], [3], [3, 3]]
            \<and> backup_workload_quota (objs s' ! 1) = [fl (12 / 5)]
            \<and> backup_workload_quota (objs s' ! 2) = [fl (12 / 5), fl (12 / 5)]
            \<and> backup_list s' = [[0, 1], [2]]
            \<and> length (backup_start s') = 2
            \<and> backup_start s' ! 0 = fl (10 - backup_workload_quota (objs s' ! 0) ! 0)
            \<and> backup_start s' ! 1 = fl (88 / 5)))"
  by (simp add: model_eval cong: eval_cong)

section \<open>Failure of the builder\<close>

text \<open>
  C5, as the specification states it: a failing \<open>generate_schedule\<close> leaves no window's
  primary map, backup list or backup start behind. With time step \<open>1\<close>, one core and the
  tasks \<open>(0, 10, 0.5)\<close>, \<open>(1, 11, 0.2)\<close>, \<open>(2, 11, 0.2)\<close> window \<open>0\<close> is built, window \<open>1\<close>
  (of length \<open>1\<close>, two quotas of \<open>1\<close>) fails the capacity test, and the call returns \<open>False\<close>
  with the schedule of window \<open>0\<close> in place and the caller's list cut to two tasks.
\<close>

theorem failure_keeps_windows_counterexample:
  "(case init 1 20 1 1 (fl (4 / 5)) False of Inl e \<Rightarrow> False
    | Inr s \<Rightarrow>
       (case generate_schedule s
               [Task 0 10 (1 / 2), Task 1 11 (fl (1 / 5)), Task 2 11 (fl (1 / 5))] of
          Inl e \<Rightarrow> False
        | Inr (ok, s', rest) \<Rightarrow>
            \<not> ok \<and> backup_start s' = [6] \<and> backup_list s' = [[0, 1, 2]]
            \<and> pri_schedule s' 0 = Some [((0, 0), 0), ((5, 0), 1), ((7, 0), 2)]
            \<and> map task_id rest = [1, 2]))"
  by (simp add: model_eval cong: eval_cong)

end
